theory Spec2Isabelle
  imports Complex_Main "HOL-Library.Word"
begin

section \<open>JavaScript values\<close>

text \<open>
  The report generator is JavaScript. Its numbers are IEEE doubles; the model keeps the
  special values the generator can produce (\<open>NaN\<close> and the two infinities) and takes
  every finite number as an exact rational, so rounding of a quotient to the nearest
  double and the sign of zero are not represented. A read that finds nothing
  (an array read out of range, a missing property) is \<open>undefined\<close>.
\<close>

datatype jsnum = NaN | PInf | NInf | Fin rat

datatype jsval = Undefined | Number jsnum

text \<open>\<open>ToNumber\<close>: \<open>undefined\<close> becomes \<open>NaN\<close> in arithmetic and comparisons.\<close>

fun ToNumber :: "jsval \<Rightarrow> jsnum" where
  "ToNumber Undefined = NaN"
| "ToNumber (Number n) = n"

text \<open>\<open>ToBoolean\<close>: \<open>undefined\<close>, \<open>NaN\<close> and \<open>0\<close> are falsy.\<close>

fun truthy :: "jsval \<Rightarrow> bool" where
  "truthy Undefined = False"
| "truthy (Number NaN) = False"
| "truthy (Number (Fin x)) = (x \<noteq> 0)"
| "truthy (Number PInf) = True"
| "truthy (Number NInf) = True"

text \<open>\<open>a || b\<close>\<close>

definition js_or :: "jsval \<Rightarrow> jsval \<Rightarrow> jsval" where
  "js_or a b = (if truthy a then a else b)"

instantiation jsnum :: "{plus, uminus, minus, times, inverse, ord}"
begin

fun plus_jsnum :: "jsnum \<Rightarrow> jsnum \<Rightarrow> jsnum" where
  "plus_jsnum NaN b = NaN"
| "plus_jsnum a NaN = NaN"
| "plus_jsnum (Fin x) (Fin y) = Fin (x + y)"
| "plus_jsnum PInf NInf = NaN"
| "plus_jsnum NInf PInf = NaN"
| "plus_jsnum PInf b = PInf"
| "plus_jsnum a PInf = PInf"
| "plus_jsnum NInf b = NInf"
| "plus_jsnum a NInf = NInf"

fun uminus_jsnum :: "jsnum \<Rightarrow> jsnum" where
  "uminus_jsnum NaN = NaN"
| "uminus_jsnum PInf = NInf"
| "uminus_jsnum NInf = PInf"
| "uminus_jsnum (Fin x) = Fin (- x)"

definition minus_jsnum :: "jsnum \<Rightarrow> jsnum \<Rightarrow> jsnum" where
  "minus_jsnum a b = a + (- b)"

fun times_jsnum :: "jsnum \<Rightarrow> jsnum \<Rightarrow> jsnum" where
  "times_jsnum NaN b = NaN"
| "times_jsnum a NaN = NaN"
| "times_jsnum (Fin x) (Fin y) = Fin (x * y)"
| "times_jsnum (Fin x) PInf = (if x = 0 then NaN else if 0 < x then PInf else NInf)"
| "times_jsnum (Fin x) NInf = (if x = 0 then NaN else if 0 < x then NInf else PInf)"
| "times_jsnum PInf (Fin y) = (if y = 0 then NaN else if 0 < y then PInf else NInf)"
| "times_jsnum NInf (Fin y) = (if y = 0 then NaN else if 0 < y then NInf else PInf)"
| "times_jsnum PInf PInf = PInf"
| "times_jsnum PInf NInf = NInf"
| "times_jsnum NInf PInf = NInf"
| "times_jsnum NInf NInf = PInf"

fun divide_jsnum :: "jsnum \<Rightarrow> jsnum \<Rightarrow> jsnum" where
  "divide_jsnum NaN b = NaN"
| "divide_jsnum a NaN = NaN"
| "divide_jsnum (Fin x) (Fin y) =
     (if y = 0 then (if x = 0 then NaN else if 0 < x then PInf else NInf) else Fin (x / y))"
| "divide_jsnum (Fin x) PInf = Fin 0"
| "divide_jsnum (Fin x) NInf = Fin 0"
| "divide_jsnum PInf (Fin y) = (if 0 \<le> y then PInf else NInf)"
| "divide_jsnum NInf (Fin y) = (if 0 \<le> y then NInf else PInf)"
| "divide_jsnum PInf PInf = NaN"
| "divide_jsnum PInf NInf = NaN"
| "divide_jsnum NInf PInf = NaN"
| "divide_jsnum NInf NInf = NaN"

fun inverse_jsnum :: "jsnum \<Rightarrow> jsnum" where
  "inverse_jsnum NaN = NaN"
| "inverse_jsnum (Fin y) = (if y = 0 then PInf else Fin (1 / y))"
| "inverse_jsnum PInf = Fin 0"
| "inverse_jsnum NInf = Fin 0"

fun less_jsnum :: "jsnum \<Rightarrow> jsnum \<Rightarrow> bool" where
  "less_jsnum NaN b = False"
| "less_jsnum a NaN = False"
| "less_jsnum (Fin x) (Fin y) = (x < y)"
| "less_jsnum (Fin x) PInf = True"
| "less_jsnum (Fin x) NInf = False"
| "less_jsnum PInf b = False"
| "less_jsnum NInf NInf = False"
| "less_jsnum NInf b = True"

fun less_eq_jsnum :: "jsnum \<Rightarrow> jsnum \<Rightarrow> bool" where
  "less_eq_jsnum NaN b = False"
| "less_eq_jsnum a NaN = False"
| "less_eq_jsnum (Fin x) (Fin y) = (x \<le> y)"
| "less_eq_jsnum (Fin x) PInf = True"
| "less_eq_jsnum (Fin x) NInf = False"
| "less_eq_jsnum PInf PInf = True"
| "less_eq_jsnum PInf b = False"
| "less_eq_jsnum NInf b = True"

instance ..

end

text \<open>\<open>Math.round\<close>: the nearest integer, a half rounding up.\<close>

fun Math_round :: "jsnum \<Rightarrow> jsnum" where
  "Math_round (Fin x) = Fin (of_int \<lfloor>x + 1 / 2\<rfloor>)"
| "Math_round a = a"

text \<open>
  \<open>Math.min(...xs)\<close> and \<open>Math.max(...xs)\<close>: \<open>Infinity\<close> and \<open>-Infinity\<close> on no
  argument, \<open>NaN\<close> as soon as one argument is \<open>NaN\<close>.
\<close>

definition min2 :: "jsnum \<Rightarrow> jsnum \<Rightarrow> jsnum" where
  "min2 a b = (if a = NaN \<or> b = NaN then NaN else if b < a then b else a)"

definition max2 :: "jsnum \<Rightarrow> jsnum \<Rightarrow> jsnum" where
  "max2 a b = (if a = NaN \<or> b = NaN then NaN else if a < b then b else a)"

definition Math_min :: "jsnum list \<Rightarrow> jsnum" where
  "Math_min xs = foldl min2 PInf xs"

definition Math_max :: "jsnum list \<Rightarrow> jsnum" where
  "Math_max xs = foldl max2 NInf xs"

section \<open>The metrics bundle\<close>

text \<open>
  \<open>metrics.followerHistory: Array of { date, count }\<close> and
  \<open>metrics.topPosts: Array of { title, likes, comments }\<close>. A follower count is an
  integer. A post's fields may be missing from the object, which JavaScript reads as
  \<open>undefined\<close>. A title is a JavaScript string, a sequence of UTF-16 code units.
\<close>

type_synonym jsstring = "16 word list"

record follower_sample =
  date :: string
  count :: int

record post_sample =
  title :: "jsstring option"
  likes :: "int option"
  comments :: "int option"

record metrics =
  followerHistory :: "follower_sample list"
  topPosts :: "post_sample list"

record report_options =
  since :: "string option"
  until :: "string option"

text \<open>Reading a numeric property that may be missing.\<close>

fun num_field :: "int option \<Rightarrow> jsval" where
  "num_field None = Undefined"
| "num_field (Some n) = Number (Fin (of_int n))"

text \<open>\<open>xs[i]\<close>: \<open>undefined\<close> out of range, also at the index \<open>-1\<close>.\<close>

definition at_index :: "int list \<Rightarrow> int \<Rightarrow> jsval" where
  "at_index xs i =
     (if 0 \<le> i \<and> i < int (length xs) then Number (Fin (of_int (xs ! nat i))) else Undefined)"

section \<open>Derived statistics (the head of \<open>generateReport\<close>)\<close>

definition counts :: "metrics \<Rightarrow> int list" where
  "counts m = map count (followerHistory m)"

definition startCount :: "metrics \<Rightarrow> jsval" where
  "startCount m = at_index (counts m) 0"

definition endCount :: "metrics \<Rightarrow> jsval" where
  "endCount m = at_index (counts m) (int (length (counts m)) - 1)"

definition growth :: "metrics \<Rightarrow> jsnum" where
  "growth m =
     (if truthy (startCount m)
      then ((ToNumber (endCount m) - ToNumber (startCount m)) / ToNumber (startCount m)) * Fin 100
      else Fin 0)"

definition totalNewFollowers :: "metrics \<Rightarrow> jsnum" where
  "totalNewFollowers m = ToNumber (endCount m) - ToNumber (startCount m)"

definition dailyGrowth :: "metrics \<Rightarrow> jsnum" where
  "dailyGrowth m =
     (if length (counts m) > 1
      then totalNewFollowers m / Fin (of_nat (length (counts m) - 1))
      else Fin 0)"

definition totalLikes :: "metrics \<Rightarrow> jsnum" where
  "totalLikes m =
     foldl (\<lambda>sum p. sum + ToNumber (js_or (num_field (likes p)) (Number (Fin 0)))) (Fin 0) (topPosts m)"

definition totalComments :: "metrics \<Rightarrow> jsnum" where
  "totalComments m =
     foldl (\<lambda>sum p. sum + ToNumber (js_or (num_field (comments p)) (Number (Fin 0)))) (Fin 0) (topPosts m)"

definition avgLikes :: "metrics \<Rightarrow> jsnum" where
  "avgLikes m =
     (if length (topPosts m) \<noteq> 0 then totalLikes m / Fin (of_nat (length (topPosts m))) else Fin 0)"

definition avgComments :: "metrics \<Rightarrow> jsnum" where
  "avgComments m =
     (if length (topPosts m) \<noteq> 0 then totalComments m / Fin (of_nat (length (topPosts m)))
      else Fin 0)"

definition engagementRate :: "metrics \<Rightarrow> jsnum" where
  "engagementRate m =
     (if ToNumber (endCount m) > Fin 0 \<and> length (topPosts m) > 0
      then ((totalLikes m + totalComments m)
             / (Fin (of_nat (length (topPosts m))) * ToNumber (endCount m))) * Fin 100
      else Fin 0)"

definition commentLikeRatio :: "metrics \<Rightarrow> jsnum" where
  "commentLikeRatio m =
     (if totalLikes m > Fin 0 then (totalComments m / totalLikes m) * Fin 100 else Fin 0)"

definition numDays :: "metrics \<Rightarrow> nat" where
  "numDays m = (if length (counts m) > 1 then length (counts m) - 1 else 1)"

definition growthSlope :: "metrics \<Rightarrow> jsnum" where
  "growthSlope m =
     (if numDays m > 0
      then (ToNumber (endCount m) - ToNumber (startCount m)) / Fin (of_nat (numDays m))
      else Fin 0)"

definition forecast30 :: "metrics \<Rightarrow> jsnum" where
  "forecast30 m = Math_round (ToNumber (endCount m) + growthSlope m * Fin 30)"

definition forecast90 :: "metrics \<Rightarrow> jsnum" where
  "forecast90 m = Math_round (ToNumber (endCount m) + growthSlope m * Fin 90)"

section \<open>The document\<close>

text \<open>
  \<open>generateReport\<close> drives PDFKit: it writes text, draws paths and rectangles and opens
  pages. The model records these calls in order. A text call is recorded with its
  content only, as the pieces of its template: literal text, a string of the input, and
  the numbers and dates it formats (the formatting itself is left to the engine).
  Path and rectangle calls are recorded with their coordinates. Style setters (font,
  size, colours, line width, opacity, save and restore), cursor moves, the logo and the
  page frame that \<open>drawBackgroundAndCard\<close> paints leave no record. Pages are those the
  generator opens itself with \<open>addPage\<close>, after the first one the document starts with;
  page breaks that PDFKit may insert on its own when text overflows a page are not part
  of the model.
\<close>

datatype frag =
    Lit string
  | Units jsstring
  | Str jsval
  | Fixed jsnum nat
  | Locale jsnum
  | LocaleDate string
  | LocaleDatePad string nat

datatype op =
    Text "frag list"
  | MoveTo jsnum jsnum
  | LineTo jsnum jsnum
  | Stroke
  | Rect jsnum jsnum jsnum jsnum
  | Fill
  | AddPage

datatype error = TypeError

text \<open>
  What PDFKit supplies: the width of an A4 page and the cursor position \<open>doc.y\<close> at the
  two places where the generator reads it to anchor a chart.
\<close>

record layout =
  pageWidth :: rat
  growthChartY :: rat
  barChartY :: rat

definition cardMarginX :: jsnum where
  "cardMarginX = Fin 50"

definition cardWidth :: "layout \<Rightarrow> jsnum" where
  "cardWidth L = Fin (pageWidth L) - cardMarginX * Fin 2"

definition en_dash :: frag where
  "en_dash = Units [0x20, 0x2013, 0x20]"

definition bullet :: frag where
  "bullet = Units [0x2022, 0x20]"

definition ellipsis :: "16 word" where
  "ellipsis = 0x2026"

subsection \<open>Page 1: header, summary and follower growth chart\<close>

definition dateRangeText :: "report_options \<Rightarrow> frag list" where
  "dateRangeText opts =
     (let sinceDate = (case since opts of
                         Some s \<Rightarrow> if s \<noteq> [] then [LocaleDate s] else [Lit ''Last 30 days'']
                       | None \<Rightarrow> [Lit ''Last 30 days'']);
          untilDate = (case until opts of
                         Some u \<Rightarrow> if u \<noteq> [] then [LocaleDate u] else []
                       | None \<Rightarrow> [])
      in if untilDate \<noteq> [] then sinceDate @ [en_dash] @ untilDate else sinceDate)"

definition header :: "report_options \<Rightarrow> op list" where
  "header opts =
     [Text (dateRangeText opts),
      Text [Lit ''Social Media Report''],
      Text [Lit ''Performance & Growth Insights'']]"

definition summaryLines :: "metrics \<Rightarrow> frag list list" where
  "summaryLines m =
     [[Lit ''Follower count changed from '', Str (startCount m), Lit '' to '', Str (endCount m),
       Lit '', a '', Fixed (growth m) 1, Lit ''% change.''],
      [Lit ''Total new followers: '', Str (Number (totalNewFollowers m)), Lit '' (~'',
       Fixed (dailyGrowth m) 1, Lit '' per day)''],
      [Lit ''Average likes: '', Fixed (avgLikes m) 0, Lit '', Average comments: '',
       Fixed (avgComments m) 1, Lit '' per post'']]"

definition summary :: "metrics \<Rightarrow> op list" where
  "summary m = Text [Lit ''Summary''] # map Text (summaryLines m)"

definition followerGrowthChart :: "layout \<Rightarrow> metrics \<Rightarrow> op list" where
  "followerGrowthChart L m =
     (let chartWidth = Fin 450;
          chartHeight = Fin 220;
          marginX = Fin 50;
          totalChartSpan = marginX + chartWidth;
          chartX = cardMarginX + (cardWidth L - totalChartSpan) / Fin 2;
          chartY = Fin (growthChartY L);
          minCount = Math_min (map (\<lambda>c. Fin (of_int c)) (counts m));
          maxCount = Math_max (map (\<lambda>c. Fin (of_int c)) (counts m));
          yRange = ToNumber (js_or (Number (maxCount - minCount)) (Number (Fin 1)));
          xStep = chartWidth / Fin (of_int (int (length (followerHistory m)) - 1))
      in [Text [Lit ''Follower Growth''],
          MoveTo (chartX + marginX) chartY,
          LineTo (chartX + marginX) (chartY + chartHeight),
          Stroke,
          MoveTo (chartX + marginX) (chartY + chartHeight),
          LineTo (chartX + marginX + chartWidth) (chartY + chartHeight),
          Stroke,
          Text [Str (Number maxCount)],
          Text [Str (Number minCount)],
          Text [LocaleDate (date (followerHistory m ! 0))],
          Text [LocaleDate (date (followerHistory m ! (length (followerHistory m) - 1)))]]
         @ map (\<lambda>(idx, item).
                  let x = chartX + marginX + xStep * Fin (of_nat idx);
                      normalized = (Fin (of_int (count item)) - minCount) / yRange;
                      y = chartY + chartHeight - normalized * chartHeight
                  in if idx = 0 then MoveTo x y else LineTo x y)
               (enumerate 0 (followerHistory m))
         @ [Stroke])"

definition page1 :: "layout \<Rightarrow> metrics \<Rightarrow> report_options \<Rightarrow> op list" where
  "page1 L m opts =
     header opts @ summary m
     @ (if length (followerHistory m) > 1 then followerGrowthChart L m else [])"

subsection \<open>Page 2: follower history table and bar chart of the top posts\<close>

definition followerHistoryTable :: "metrics \<Rightarrow> op list" where
  "followerHistoryTable m =
     Text [Lit ''Follower History'']
     # map (\<lambda>item. Text [LocaleDatePad (date item) 14, Lit ''  '',
                           Str (Number (Fin (of_int (count item))))])
           (followerHistory m)"

definition maxMetric :: "metrics \<Rightarrow> jsnum" where
  "maxMetric m =
     ToNumber (js_or
       (Number (Math_max
          (map (\<lambda>p. ToNumber (js_or (num_field (likes p)) (Number (Fin 0)))) (topPosts m)
           @ map (\<lambda>p. ToNumber (js_or (num_field (comments p)) (Number (Fin 0)))) (topPosts m))))
       (Number (Fin 1)))"

definition topPostsBarChart :: "layout \<Rightarrow> metrics \<Rightarrow> op list" where
  "topPostsBarChart L m =
     (let barWidth = Fin 30;
          barGap = Fin 20;
          chartHeight = Fin 180;
          totalBarChartWidth = Fin (of_nat (length (topPosts m))) * (Fin 2 * barWidth + barGap);
          chartX = cardMarginX + (cardWidth L - totalBarChartWidth) / Fin 2;
          chartY = Fin (barChartY L);
          legendY = chartY + chartHeight + Fin 20;
          legendX = chartX;
          secondLegendX = legendX + Fin 60
      in [Text [Lit ''Top Posts Engagement (Likes vs Comments)''],
          MoveTo chartX chartY,
          LineTo chartX (chartY + chartHeight),
          Stroke,
          MoveTo chartX (chartY + chartHeight),
          LineTo (chartX + totalBarChartWidth) (chartY + chartHeight),
          Stroke]
         @ concat (map (\<lambda>(idx, post).
                  let likesHeight =
                        ToNumber (js_or (num_field (likes post)) (Number (Fin 0)))
                          / maxMetric m * chartHeight;
                      commentsHeight =
                        ToNumber (js_or (num_field (comments post)) (Number (Fin 0)))
                          / maxMetric m * chartHeight;
                      baseX = chartX + Fin (of_nat idx) * (Fin 2 * barWidth + barGap)
                  in [Rect baseX (chartY + chartHeight - likesHeight) barWidth likesHeight,
                      Fill,
                      Rect (baseX + barWidth) (chartY + chartHeight - commentsHeight)
                        barWidth commentsHeight,
                      Fill,
                      Text [Str (Number (Fin (of_nat idx + 1)))]])
               (enumerate 0 (topPosts m)))
         @ [Rect legendX legendY (Fin 10) (Fin 10),
            Fill,
            Text [Lit ''Likes''],
            Rect secondLegendX legendY (Fin 10) (Fin 10),
            Fill,
            Text [Lit ''Comments'']])"

definition page2 :: "layout \<Rightarrow> metrics \<Rightarrow> op list" where
  "page2 L m =
     followerHistoryTable m
     @ (if length (topPosts m) > 0 then topPostsBarChart L m else [])"

subsection \<open>Page 3: key takeaways and recommendations\<close>

definition keyPoints :: "metrics \<Rightarrow> frag list list" where
  "keyPoints m =
     [[Lit ''Average daily follower growth: '', Fixed (dailyGrowth m) 1, Lit '' per day.''],
      [Lit ''Engagement rate: '', Fixed (engagementRate m) 2,
       Lit ''% (likes + comments relative to reach).''],
      [Lit ''Comment-to-like ratio: '', Fixed (commentLikeRatio m) 2, Lit ''%.''],
      [Lit ''Projected followers in 30 days: '', Locale (forecast30 m), Lit ''.''],
      [Lit ''Projected followers in 90 days: '', Locale (forecast90 m), Lit ''.'']]"

definition rec_flat :: string where
  "rec_flat = ''Growth is flat or declining. Increase posting frequency and experiment with varied content types (videos, stories) to reignite growth.''"

definition rec_modest :: string where
  "rec_modest = ''Growth is positive but modest. Leverage trending topics and hashtags to expand reach and attract new followers.''"

definition rec_strong :: string where
  "rec_strong = ''Growth is strong. Maintain your current posting cadence and continue engaging with your audience to sustain momentum.''"

definition rec_low_engagement :: string where
  "rec_low_engagement = ''Low engagement rate. Encourage interaction by asking questions in captions and responding promptly to comments.''"

definition rec_high_engagement :: string where
  "rec_high_engagement = ''High engagement rate. Capitalize on this by collaborating with influencers or hosting contests to further boost engagement.''"

definition rec_few_comments :: string where
  "rec_few_comments = ''Comments are relatively low compared to likes. Inspire discussion by inviting followers to share their thoughts or experiences.''"

definition rec_balanced :: string where
  "rec_balanced = ''Good balance between comments and likes. Keep fostering conversations to strengthen your community.''"

definition rec_closing :: string where
  "rec_closing = ''Regularly review your top performing content to identify themes that resonate with your audience, and iterate on these successes.''"

definition recommendations :: "jsnum \<Rightarrow> jsnum \<Rightarrow> jsnum \<Rightarrow> jsnum \<Rightarrow> string list" where
  "recommendations growthSlope' dailyGrowth' engagementRate' commentLikeRatio' =
     (if growthSlope' \<le> Fin 0 then [rec_flat]
      else if dailyGrowth' < Fin 5 then [rec_modest]
      else [rec_strong])
     @ (if engagementRate' < Fin 1 then [rec_low_engagement]
        else if engagementRate' > Fin 5 then [rec_high_engagement]
        else [])
     @ (if commentLikeRatio' < Fin 10 then [rec_few_comments] else [rec_balanced])
     @ [rec_closing]"

definition page3 :: "metrics \<Rightarrow> op list" where
  "page3 m =
     Text [Lit ''Key Takeaways & Growth Forecast'']
     # map (\<lambda>point. Text (bullet # point)) (keyPoints m)
     @ Text [Lit ''Recommendations'']
     # map (\<lambda>rec. Text [bullet, Lit rec])
           (recommendations (growthSlope m) (dailyGrowth m) (engagementRate m)
              (commentLikeRatio m))"

subsection \<open>Page 4: top posts table\<close>

text \<open>
  \<open>title.length > 50 ? title.slice(0, 47) + '\<dots>' : title\<close>, where the appended
  character is the one-unit ellipsis U+2026. Reading \<open>length\<close> of a missing title
  throws a \<open>TypeError\<close>, which ends the whole call.
\<close>

definition truncated :: "jsstring \<Rightarrow> jsstring" where
  "truncated t = (if length t > 50 then take 47 t @ [ellipsis] else t)"

fun topPostsRows :: "post_sample list \<Rightarrow> error + op list" where
  "topPostsRows [] = Inr []"
| "topPostsRows (post # posts) =
     (case title post of
        None \<Rightarrow> Inl TypeError
      | Some t \<Rightarrow>
          (case topPostsRows posts of
             Inl e \<Rightarrow> Inl e
           | Inr rows \<Rightarrow>
               Inr ([Text [Units (truncated t)],
                     Text [Str (num_field (likes post))],
                     Text [Str (num_field (comments post))]] @ rows)))"

definition page4_head :: "op list" where
  "page4_head = [Text [Lit ''Top Posts''], Text [Lit ''Title''], Text [Lit ''Likes''],
                 Text [Lit ''Comments'']]"

subsection \<open>The whole report\<close>

definition generateReport :: "layout \<Rightarrow> metrics \<Rightarrow> report_options \<Rightarrow> error + op list" where
  "generateReport L m opts =
     (case topPostsRows (topPosts m) of
        Inl e \<Rightarrow> Inl e
      | Inr rows \<Rightarrow>
          Inr (page1 L m opts @ [AddPage] @ page2 L m @ [AddPage] @ page3 m
               @ [AddPage] @ page4_head @ rows))"

text \<open>Reading a finished document: its pages, split where a page was opened.\<close>

fun pages :: "op list \<Rightarrow> op list list" where
  "pages [] = [[]]"
| "pages (AddPage # os) = [] # pages os"
| "pages (x # os) = (case pages os of [] \<Rightarrow> [[x]] | pg # pgs \<Rightarrow> (x # pg) # pgs)"


section \<open>Reading the input, and example inputs\<close>

text \<open>A numeric field of a post with a missing value read as 0.\<close>

definition or_zero :: "int option \<Rightarrow> int" where
  "or_zero v = (case v of None \<Rightarrow> 0 | Some n \<Rightarrow> n)"

definition empty_metrics :: metrics where
  "empty_metrics = \<lparr>followerHistory = [], topPosts = []\<rparr>"

text \<open>Two samples a day apart, 100 then 200 followers.\<close>

definition forecast_example :: metrics where
  "forecast_example =
     \<lparr>followerHistory = [\<lparr>date = ''2024-01-01'', count = 100\<rparr>,
                         \<lparr>date = ''2024-01-02'', count = 200\<rparr>],
      topPosts = []\<rparr>"


text \<open>Two samples with the same follower count.\<close>

definition flat_example :: metrics where
  "flat_example =
     \<lparr>followerHistory = [\<lparr>date = ''2024-01-01'', count = 100\<rparr>,
                         \<lparr>date = ''2024-01-02'', count = 100\<rparr>],
      topPosts = []\<rparr>"

text \<open>100 followers and one post that nobody liked or commented.\<close>

definition silent_example :: metrics where
  "silent_example =
     \<lparr>followerHistory = [\<lparr>date = ''2024-01-01'', count = 100\<rparr>],
      topPosts = [\<lparr>title = Some [0x61], likes = Some 0, comments = Some 0\<rparr>]\<rparr>"

text \<open>100 followers and one post with three likes and two comments.\<close>

definition lively_example :: metrics where
  "lively_example =
     \<lparr>followerHistory = [\<lparr>date = ''2024-01-01'', count = 100\<rparr>],
      topPosts = [\<lparr>title = Some [0x61], likes = Some 3, comments = Some 2\<rparr>]\<rparr>"

text \<open>The three cells the top posts table shows for a post that has a title.\<close>

definition table_row :: "post_sample \<Rightarrow> op list" where
  "table_row p = [Text [Units (truncated (the (title p)))], Text [Str (num_field (likes p))],
                  Text [Str (num_field (comments p))]]"

text \<open>An A4 page (595.28 points wide) and two cursor positions; no date range.\<close>

definition example_layout :: layout where
  "example_layout = \<lparr>pageWidth = 59528 / 100, growthChartY = 250, barChartY = 300\<rparr>"

definition no_options :: report_options where
  "no_options = \<lparr>since = None, until = None\<rparr>"

text \<open>No history and one post whose title is 60 times the letter a.\<close>

definition long_title_example :: metrics where
  "long_title_example =
     \<lparr>followerHistory = [],
      topPosts = [\<lparr>title = Some (replicate 60 0x61), likes = Some 7, comments = Some 1\<rparr>]\<rparr>"

text \<open>
  The line chart as the specification words it, over a chart box with origin
  \<open>(boxX, boxY)\<close>, a width and a height: sample \<open>i\<close> of \<open>N\<close> lies at
  \<open>x = boxX + i * (width / (N - 1))\<close>, and a value \<open>v\<close> at
  \<open>y = boxY + height - ((v - min) / (max - min, or 1 if max = min)) * height\<close>.
\<close>

definition spec_line_x :: "rat \<Rightarrow> rat \<Rightarrow> nat \<Rightarrow> nat \<Rightarrow> rat" where
  "spec_line_x boxX width N i = boxX + of_nat i * (width / of_nat (N - 1))"

definition spec_line_y :: "rat \<Rightarrow> rat \<Rightarrow> int \<Rightarrow> int \<Rightarrow> int \<Rightarrow> rat" where
  "spec_line_y boxY height mn mx v =
     boxY + height
     - ((of_int v - of_int mn) / (if mx = mn then 1 else of_int mx - of_int mn)) * height"

text \<open>
  The left edge of the follower growth chart's box: \<open>chartX + marginX\<close> of the
  generator, with the card 50 points inside the page on each side.
\<close>

definition growth_box_x :: "layout \<Rightarrow> rat" where
  "growth_box_x L = 50 + (pageWidth L - 50 * 2 - (50 + 450)) / 2 + 50"

text \<open>A post, and a bundle, with every missing like or comment count replaced by 0.\<close>

definition zero_filled :: "post_sample \<Rightarrow> post_sample" where
  "zero_filled p = p\<lparr>likes := Some (or_zero (likes p)), comments := Some (or_zero (comments p))\<rparr>"

definition with_zeros :: "metrics \<Rightarrow> metrics" where
  "with_zeros m = m\<lparr>topPosts := map zero_filled (topPosts m)\<rparr>"

text \<open>A post without a like count, and a post without a title.\<close>

definition partial_example :: metrics where
  "partial_example =
     \<lparr>followerHistory = [\<lparr>date = ''2024-01-01'', count = 100\<rparr>],
      topPosts = [\<lparr>title = Some [0x61], likes = None, comments = Some 2\<rparr>]\<rparr>"

definition untitled_example :: metrics where
  "untitled_example =
     \<lparr>followerHistory = [\<lparr>date = ''2024-01-01'', count = 100\<rparr>],
      topPosts = [\<lparr>title = None, likes = Some 3, comments = Some 2\<rparr>]\<rparr>"

section \<open>Properties of the derived statistics\<close>

lemma startCount_Nil: "followerHistory m = [] \<Longrightarrow> startCount m = Undefined"
  by (simp add: startCount_def counts_def at_index_def)

lemma endCount_Nil: "followerHistory m = [] \<Longrightarrow> endCount m = Undefined"
  by (simp add: endCount_def counts_def at_index_def)

lemma startCount_hd:
  "followerHistory m \<noteq> [] \<Longrightarrow>
   startCount m = Number (Fin (of_int (count (hd (followerHistory m)))))"
  by (cases "followerHistory m") (simp_all add: startCount_def counts_def at_index_def)

lemma endCount_last:
  "followerHistory m \<noteq> [] \<Longrightarrow>
   endCount m = Number (Fin (of_int (count (last (followerHistory m)))))"
  by (simp add: endCount_def counts_def at_index_def last_conv_nth nat_diff_distrib')

lemma Fin_minus: "Fin x - Fin y = Fin (x - y)"
  by (simp add: minus_jsnum_def)

lemma or_zero_field:
  "ToNumber (js_or (num_field v) (Number (Fin 0))) = Fin (of_int (or_zero v))"
  by (cases v) (simp_all add: js_or_def or_zero_def)

lemma foldl_Fin_sum:
  "foldl (\<lambda>sum p. sum + ToNumber (js_or (num_field (f p)) (Number (Fin 0)))) (Fin (of_int a)) ps
   = Fin (of_int (a + (\<Sum>p\<leftarrow>ps. or_zero (f p))))"
  by (induction ps arbitrary: a) (simp_all add: or_zero_field add.assoc flip: of_int_add)

lemma totalLikes_sum: "totalLikes m = Fin (of_int (\<Sum>p\<leftarrow>topPosts m. or_zero (likes p)))"
  using foldl_Fin_sum [of likes 0 "topPosts m"] by (simp add: totalLikes_def)

lemma totalComments_sum:
  "totalComments m = Fin (of_int (\<Sum>p\<leftarrow>topPosts m. or_zero (comments p)))"
  using foldl_Fin_sum [of comments 0 "topPosts m"] by (simp add: totalComments_def)




text \<open>
  Claim C1 says that on an empty follower history every derived growth metric is zero
  and no undefined arithmetic occurs. The generator reads \<open>counts[0]\<close> and
  \<open>counts[-1]\<close> of the empty array, both \<open>undefined\<close>, and subtracts them: the growth
  percentage and the daily growth are 0 by their guards, but the total of new
  followers, the growth slope and both forecasts are \<open>NaN\<close>.
\<close>

theorem empty_history_growth_metrics:
  "followerHistory m = [] \<Longrightarrow>
   growth m = Fin 0 \<and> dailyGrowth m = Fin 0 \<and> totalNewFollowers m = NaN
   \<and> growthSlope m = NaN \<and> forecast30 m = NaN \<and> forecast90 m = NaN"
  by (simp add: growth_def dailyGrowth_def totalNewFollowers_def growthSlope_def
        forecast30_def forecast90_def startCount_Nil endCount_Nil numDays_def counts_def
        minus_jsnum_def)

theorem empty_history_growth_metrics_witness:
  "followerHistory empty_metrics = [] \<and> totalNewFollowers empty_metrics = NaN
   \<and> growthSlope empty_metrics = NaN \<and> forecast30 empty_metrics = NaN
   \<and> forecast90 empty_metrics = NaN"
  using empty_history_growth_metrics [of empty_metrics] by (simp add: empty_metrics_def)




text \<open>
  Claim C4, as amended: the growth percentage is 0 exactly when the history is empty,
  the first count is 0, or the last count equals the first; and whenever the first
  count is not 0 it is \<open>(endCount - startCount) / startCount * 100\<close>.
\<close>

theorem growth_zero_cases:
  "(growth m = Fin 0) =
     (followerHistory m = [] \<or> count (hd (followerHistory m)) = 0
      \<or> count (last (followerHistory m)) = count (hd (followerHistory m)))
   \<and> (followerHistory m \<noteq> [] \<and> count (hd (followerHistory m)) \<noteq> 0 \<longrightarrow>
        growth m = Fin ((of_int (count (last (followerHistory m)))
                         - of_int (count (hd (followerHistory m))))
                        / of_int (count (hd (followerHistory m))) * 100))"
  by (cases "followerHistory m = []")
     (auto simp add: growth_def startCount_Nil endCount_Nil startCount_hd endCount_last
        Fin_minus)

theorem growth_zero_cases_witness:
  "followerHistory forecast_example \<noteq> []
   \<and> count (hd (followerHistory forecast_example)) \<noteq> 0
   \<and> growth forecast_example = Fin 100 \<and> growth forecast_example \<noteq> Fin 0"
  using growth_zero_cases [of forecast_example] by (simp add: forecast_example_def)

theorem growth_zero_counterexample:
  "growth flat_example = Fin 0 \<and> startCount flat_example = Number (Fin 100)"
  by code_simp

text \<open>
  Claim C5, as amended: the engagement rate is 0 exactly when the history is empty, the
  last count is not positive, there is no post, or the likes and comments of all posts
  (a missing value counting as 0) add up to 0; and whenever the last count is positive
  and there is a post it is \<open>(totalLikes + totalComments) / (postCount * endCount) * 100\<close>.
\<close>

theorem engagementRate_zero_cases:
  "(engagementRate m = Fin 0) =
     (followerHistory m = [] \<or> count (last (followerHistory m)) \<le> 0 \<or> topPosts m = []
      \<or> (\<Sum>p\<leftarrow>topPosts m. or_zero (likes p)) + (\<Sum>p\<leftarrow>topPosts m. or_zero (comments p)) = 0)
   \<and> (followerHistory m \<noteq> [] \<and> count (last (followerHistory m)) > 0 \<and> topPosts m \<noteq> [] \<longrightarrow>
        engagementRate m =
          Fin ((of_int (\<Sum>p\<leftarrow>topPosts m. or_zero (likes p))
                + of_int (\<Sum>p\<leftarrow>topPosts m. or_zero (comments p)))
               / (of_nat (length (topPosts m)) * of_int (count (last (followerHistory m))))
               * 100))"
  by (cases "followerHistory m = []")
     (auto simp add: engagementRate_def endCount_Nil endCount_last totalLikes_sum
        totalComments_sum simp flip: of_int_add)

theorem engagementRate_zero_cases_witness:
  "followerHistory lively_example \<noteq> [] \<and> count (last (followerHistory lively_example)) > 0
   \<and> topPosts lively_example \<noteq> [] \<and> engagementRate lively_example = Fin 5"
  using engagementRate_zero_cases [of lively_example]
  by (simp add: lively_example_def or_zero_def)

theorem engagementRate_zero_counterexample:
  "engagementRate silent_example = Fin 0 \<and> endCount silent_example = Number (Fin 100)
   \<and> topPosts silent_example \<noteq> []"
  by code_simp

section \<open>Properties of the recommendations\<close>

lemma rec_distinct:
  "distinct [rec_flat, rec_modest, rec_strong, rec_low_engagement, rec_high_engagement,
             rec_few_comments, rec_balanced, rec_closing]"
  by code_simp

lemma rec_neq:
  "rec_flat \<noteq> rec_modest" "rec_flat \<noteq> rec_strong"
  "rec_flat \<noteq> rec_low_engagement" "rec_flat \<noteq> rec_high_engagement"
  "rec_flat \<noteq> rec_few_comments" "rec_flat \<noteq> rec_balanced"
  "rec_flat \<noteq> rec_closing" "rec_modest \<noteq> rec_flat"
  "rec_modest \<noteq> rec_strong" "rec_modest \<noteq> rec_low_engagement"
  "rec_modest \<noteq> rec_high_engagement" "rec_modest \<noteq> rec_few_comments"
  "rec_modest \<noteq> rec_balanced" "rec_modest \<noteq> rec_closing"
  "rec_strong \<noteq> rec_flat" "rec_strong \<noteq> rec_modest"
  "rec_strong \<noteq> rec_low_engagement" "rec_strong \<noteq> rec_high_engagement"
  "rec_strong \<noteq> rec_few_comments" "rec_strong \<noteq> rec_balanced"
  "rec_strong \<noteq> rec_closing" "rec_low_engagement \<noteq> rec_flat"
  "rec_low_engagement \<noteq> rec_modest" "rec_low_engagement \<noteq> rec_strong"
  "rec_low_engagement \<noteq> rec_high_engagement" "rec_low_engagement \<noteq> rec_few_comments"
  "rec_low_engagement \<noteq> rec_balanced" "rec_low_engagement \<noteq> rec_closing"
  "rec_high_engagement \<noteq> rec_flat" "rec_high_engagement \<noteq> rec_modest"
  "rec_high_engagement \<noteq> rec_strong" "rec_high_engagement \<noteq> rec_low_engagement"
  "rec_high_engagement \<noteq> rec_few_comments" "rec_high_engagement \<noteq> rec_balanced"
  "rec_high_engagement \<noteq> rec_closing" "rec_few_comments \<noteq> rec_flat"
  "rec_few_comments \<noteq> rec_modest" "rec_few_comments \<noteq> rec_strong"
  "rec_few_comments \<noteq> rec_low_engagement" "rec_few_comments \<noteq> rec_high_engagement"
  "rec_few_comments \<noteq> rec_balanced" "rec_few_comments \<noteq> rec_closing"
  "rec_balanced \<noteq> rec_flat" "rec_balanced \<noteq> rec_modest"
  "rec_balanced \<noteq> rec_strong" "rec_balanced \<noteq> rec_low_engagement"
  "rec_balanced \<noteq> rec_high_engagement" "rec_balanced \<noteq> rec_few_comments"
  "rec_balanced \<noteq> rec_closing" "rec_closing \<noteq> rec_flat"
  "rec_closing \<noteq> rec_modest" "rec_closing \<noteq> rec_strong"
  "rec_closing \<noteq> rec_low_engagement" "rec_closing \<noteq> rec_high_engagement"
  "rec_closing \<noteq> rec_few_comments" "rec_closing \<noteq> rec_balanced"
  using rec_distinct by auto

lemma not_low_and_high: "\<not> (er < Fin 1 \<and> Fin 5 < er)"
  by (cases er) auto

text \<open>
  Claim C7: whatever the growth slope and the daily growth are, exactly one of the three
  growth-cadence messages is in the recommendations: the flat-or-declining one when
  \<open>growthSlope <= 0\<close>, else the modest one when \<open>dailyGrowth < 5\<close>, else the strong one.
\<close>

theorem growth_cadence_exclusive:
  "length (filter (\<lambda>r. r \<in> {rec_flat, rec_modest, rec_strong})
             (recommendations gs dg er clr)) = 1
   \<and> (rec_flat \<in> set (recommendations gs dg er clr)) = (gs \<le> Fin 0)
   \<and> (rec_modest \<in> set (recommendations gs dg er clr)) = (\<not> gs \<le> Fin 0 \<and> dg < Fin 5)
   \<and> (rec_strong \<in> set (recommendations gs dg er clr)) = (\<not> gs \<le> Fin 0 \<and> \<not> dg < Fin 5)"
  by (simp add: recommendations_def rec_neq)

text \<open>
  Claim C8: the low-engagement message is in the recommendations exactly when
  \<open>engagementRate < 1\<close> and the high-engagement message exactly when
  \<open>engagementRate > 5\<close>, so neither is for a rate in between; at 0.5 the low one is
  there, at 6 the high one, at 3 neither.
\<close>

theorem engagement_advice_rule:
  "(rec_low_engagement \<in> set (recommendations gs dg er clr)) = (er < Fin 1)
   \<and> (rec_high_engagement \<in> set (recommendations gs dg er clr)) = (Fin 5 < er)
   \<and> rec_low_engagement \<in> set (recommendations gs dg (Fin (1 / 2)) clr)
   \<and> rec_high_engagement \<notin> set (recommendations gs dg (Fin (1 / 2)) clr)
   \<and> rec_high_engagement \<in> set (recommendations gs dg (Fin 6) clr)
   \<and> rec_low_engagement \<notin> set (recommendations gs dg (Fin 6) clr)
   \<and> rec_low_engagement \<notin> set (recommendations gs dg (Fin 3) clr)
   \<and> rec_high_engagement \<notin> set (recommendations gs dg (Fin 3) clr)"
  using not_low_and_high [of er] by (simp add: recommendations_def rec_neq)

section \<open>Properties of the document\<close>

lemma pages_no_break: "AddPage \<notin> set xs \<Longrightarrow> pages xs = [xs]"
proof (induction xs)
  case Nil
  then show ?case by simp
next
  case (Cons x xs)
  then show ?case by (cases x) simp_all
qed

lemma pages_break: "AddPage \<notin> set xs \<Longrightarrow> pages (xs @ AddPage # ys) = xs # pages ys"
proof (induction xs)
  case Nil
  then show ?case by simp
next
  case (Cons x xs)
  then show ?case by (cases x) simp_all
qed

lemma topPostsRows_titled:
  "\<forall>p\<in>set ps. title p \<noteq> None \<Longrightarrow> topPostsRows ps = Inr (concat (map table_row ps))"
  by (induction ps) (auto simp add: table_row_def)

lemma topPostsRows_untitled:
  "\<exists>p\<in>set ps. title p = None \<Longrightarrow> topPostsRows ps = Inl TypeError"
proof (induction ps)
  case Nil
  then show ?case by simp
next
  case (Cons a ps)
  show ?case
  proof (cases "title a")
    case None
    then show ?thesis by simp
  next
    case (Some t)
    with Cons.prems have "\<exists>p\<in>set ps. title p = None" by auto
    with Cons.IH have "topPostsRows ps = Inl TypeError" by blast
    with Some show ?thesis by simp
  qed
qed

lemma no_break_page1: "AddPage \<notin> set (page1 L m opts)"
  by (auto simp add: page1_def header_def summary_def followerGrowthChart_def Let_def
        split: if_splits)

lemma no_break_page2: "AddPage \<notin> set (page2 L m)"
  by (auto simp add: page2_def followerHistoryTable_def topPostsBarChart_def Let_def
        split: if_splits)

lemma no_break_page3: "AddPage \<notin> set (page3 m)"
  by (auto simp add: page3_def)

lemma no_break_rows: "AddPage \<notin> set (concat (map table_row ps))"
  by (auto simp add: table_row_def)

lemma no_break_page4: "AddPage \<notin> set (page4_head @ concat (map table_row ps))"
  using no_break_rows [of ps] by (simp add: page4_head_def)

lemma pages_of_report:
  assumes "AddPage \<notin> set p1" "AddPage \<notin> set p2" "AddPage \<notin> set p3" "AddPage \<notin> set p4"
  shows "pages (p1 @ [AddPage] @ p2 @ [AddPage] @ p3 @ [AddPage] @ p4) = [p1, p2, p3, p4]"
  using assms by (simp add: pages_break pages_no_break)

lemma generateReport_titled:
  assumes "\<forall>p\<in>set (topPosts m). title p \<noteq> None"
  shows "generateReport L m opts =
           Inr (page1 L m opts @ [AddPage] @ page2 L m @ [AddPage] @ page3 m @ [AddPage]
                @ (page4_head @ concat (map table_row (topPosts m))))"
  using assms by (simp add: generateReport_def topPostsRows_titled)

lemma generateReport_untitled:
  assumes "\<exists>p\<in>set (topPosts m). title p = None"
  shows "generateReport L m opts = Inl TypeError"
  using topPostsRows_untitled [OF assms] by (simp add: generateReport_def)

lemma generateReport_pages:
  assumes "\<forall>p\<in>set (topPosts m). title p \<noteq> None"
  shows "\<exists>ops. generateReport L m opts = Inr ops
           \<and> pages ops = [page1 L m opts, page2 L m, page3 m,
                           page4_head @ concat (map table_row (topPosts m))]"
  using generateReport_titled [OF assms, of L opts]
    pages_of_report [OF no_break_page1 no_break_page2 no_break_page3 no_break_page4]
  by simp

lemma page1_short_history:
  "length (followerHistory m) < 2 \<Longrightarrow> page1 L m opts = header opts @ summary m"
  by (simp add: page1_def)





text \<open>
  Claim C9: when every post has a title, the top posts table on page 4 holds, after its
  headings, one row per post in order, and the first cell of a row is the title cut to
  its first 47 characters followed by one ellipsis character when the title is longer
  than 50 characters (48 characters in all), and the title unchanged otherwise.
\<close>

theorem title_truncation:
  assumes "\<forall>q\<in>set (topPosts m). title q \<noteq> None"
  shows "\<exists>ops. generateReport L m opts = Inr ops
           \<and> pages ops ! 3 = page4_head @ concat (map table_row (topPosts m))
           \<and> (\<forall>p\<in>set (topPosts m). \<forall>t. title p = Some t \<longrightarrow>
                table_row p =
                  [Text [Units (if 50 < length t then take 47 t @ [0x2026] else t)],
                   Text [Str (num_field (likes p))], Text [Str (num_field (comments p))]]
                \<and> (50 < length t \<longrightarrow> length (take 47 t @ [0x2026 :: 16 word]) = 48))"
proof -
  from generateReport_pages [OF assms, of L opts]
  obtain ops where ops: "generateReport L m opts = Inr ops"
    and pgs: "pages ops = [page1 L m opts, page2 L m, page3 m,
                           page4_head @ concat (map table_row (topPosts m))]"
    by blast
  have "pages ops ! 3 = page4_head @ concat (map table_row (topPosts m))"
    using pgs by simp
  with ops show ?thesis
    by (auto simp add: table_row_def truncated_def ellipsis_def)
qed

theorem title_truncation_witness:
  "\<exists>ops. generateReport example_layout long_title_example no_options = Inr ops
         \<and> pages ops ! 3
             = page4_head @ [Text [Units (replicate 47 0x61 @ [0x2026])],
                             Text [Str (Number (Fin 7))], Text [Str (Number (Fin 1))]]"
proof -
  have t: "\<forall>q\<in>set (topPosts long_title_example). title q \<noteq> None"
    by (simp add: long_title_example_def)
  have r: "take 47 (replicate 60 (0x61 :: 16 word)) = replicate 47 0x61"
    by simp
  from title_truncation [OF t, of example_layout no_options] r
  show ?thesis
    by (auto simp add: long_title_example_def table_row_def truncated_def ellipsis_def)
qed

section \<open>The follower growth chart and missing fields\<close>

lemma min2_Fin: "min2 (Fin (of_int a)) (Fin (of_int b)) = Fin (of_int (min a b))"
  by (simp add: min2_def min_def)

lemma max2_Fin: "max2 (Fin (of_int a)) (Fin (of_int b)) = Fin (of_int (max a b))"
  by (simp add: max2_def max_def)

lemma foldl_min2:
  "foldl min2 (Fin (of_int a)) (map (\<lambda>c. Fin (of_int c)) cs) = Fin (of_int (fold min cs a))"
  by (induction cs arbitrary: a) (simp_all add: min2_Fin min.commute)

lemma foldl_max2:
  "foldl max2 (Fin (of_int a)) (map (\<lambda>c. Fin (of_int c)) cs) = Fin (of_int (fold max cs a))"
  by (induction cs arbitrary: a) (simp_all add: max2_Fin max.commute)

lemma Math_min_counts:
  "cs \<noteq> [] \<Longrightarrow> Math_min (map (\<lambda>c. Fin (of_int c)) cs) = Fin (of_int (Min (set cs)))"
proof (cases cs)
  case Nil
  then show "cs \<noteq> [] \<Longrightarrow> ?thesis" by simp
next
  case (Cons c cs')
  have "min2 PInf (Fin (of_int c)) = Fin (of_int c)" by (simp add: min2_def)
  then have "Math_min (map (\<lambda>c. Fin (of_int c)) cs) = Fin (of_int (fold min cs' c))"
    by (simp add: Cons Math_min_def foldl_min2)
  also have "fold min cs' c = Min (set cs)"
    unfolding Cons by (rule Min.set_eq_fold [symmetric])
  finally show ?thesis .
qed

lemma Math_max_counts:
  "cs \<noteq> [] \<Longrightarrow> Math_max (map (\<lambda>c. Fin (of_int c)) cs) = Fin (of_int (Max (set cs)))"
proof (cases cs)
  case Nil
  then show "cs \<noteq> [] \<Longrightarrow> ?thesis" by simp
next
  case (Cons c cs')
  have "max2 NInf (Fin (of_int c)) = Fin (of_int c)" by (simp add: max2_def)
  then have "Math_max (map (\<lambda>c. Fin (of_int c)) cs) = Fin (of_int (fold max cs' c))"
    by (simp add: Cons Math_max_def foldl_max2)
  also have "fold max cs' c = Max (set cs)"
    unfolding Cons by (rule Max.set_eq_fold [symmetric])
  finally show ?thesis .
qed

lemma yRange_counts:
  "ToNumber (js_or (Number (Fin (of_int mx) - Fin (of_int mn))) (Number (Fin 1)))
   = Fin (if mx = mn then 1 else of_int mx - of_int mn)"
  by (simp add: js_or_def Fin_minus)

lemma map_enumerate_nth:
  "map (\<lambda>(i, x). f i x) (enumerate 0 xs) = map (\<lambda>i. f i (xs ! i)) [0..<length xs]"
  by (rule nth_equalityI) (simp_all add: nth_enumerate_eq)

lemma followerGrowthChart_explicit:
  assumes "2 \<le> length (followerHistory m)"
  shows "followerGrowthChart L m =
     [Text [Lit ''Follower Growth''],
      MoveTo (Fin (growth_box_x L)) (Fin (growthChartY L)),
      LineTo (Fin (growth_box_x L)) (Fin (growthChartY L + 220)),
      Stroke,
      MoveTo (Fin (growth_box_x L)) (Fin (growthChartY L + 220)),
      LineTo (Fin (growth_box_x L + 450)) (Fin (growthChartY L + 220)),
      Stroke,
      Text [Str (Number (Fin (of_int (Max (set (counts m))))))],
      Text [Str (Number (Fin (of_int (Min (set (counts m))))))],
      Text [LocaleDate (date (hd (followerHistory m)))],
      Text [LocaleDate (date (last (followerHistory m)))]]
     @ map (\<lambda>i. (if i = 0 then MoveTo else LineTo)
                   (Fin (spec_line_x (growth_box_x L) 450 (length (followerHistory m)) i))
                   (Fin (spec_line_y (growthChartY L) 220 (Min (set (counts m)))
                           (Max (set (counts m))) (counts m ! i))))
           [0..<length (followerHistory m)]
     @ [Stroke]"
proof -
  let ?N = "length (followerHistory m)"
  have ne: "counts m \<noteq> []" "followerHistory m \<noteq> []"
    using assms by (auto simp add: counts_def)
  have box: "cardMarginX + (cardWidth L - (Fin 50 + Fin 450)) / Fin 2 + Fin 50
             = Fin (growth_box_x L)"
    by (simp add: cardMarginX_def cardWidth_def Fin_minus growth_box_x_def)
  have pts: "map (\<lambda>(idx, item).
                  let x = Fin (growth_box_x L)
                            + Fin 450 / Fin (of_int (int ?N - 1)) * Fin (of_nat idx);
                      normalized = (Fin (of_int (count item)) - Fin (of_int (Min (set (counts m)))))
                         / Fin (if Max (set (counts m)) = Min (set (counts m)) then 1
                                else of_int (Max (set (counts m))) - of_int (Min (set (counts m))));
                      y = Fin (growthChartY L) + Fin 220 - normalized * Fin 220
                  in if idx = 0 then MoveTo x y else LineTo x y)
               (enumerate 0 (followerHistory m))
        = map (\<lambda>i. (if i = 0 then MoveTo else LineTo)
                   (Fin (spec_line_x (growth_box_x L) 450 ?N i))
                   (Fin (spec_line_y (growthChartY L) 220 (Min (set (counts m)))
                           (Max (set (counts m))) (counts m ! i))))
           [0..<?N]"
    unfolding map_enumerate_nth Let_def
    using assms
    by (intro map_cong refl)
       (simp_all add: Fin_minus spec_line_x_def spec_line_y_def counts_def of_nat_diff)
  have chart: "followerGrowthChart L m =
     [Text [Lit ''Follower Growth''],
      MoveTo (Fin (growth_box_x L)) (Fin (growthChartY L)),
      LineTo (Fin (growth_box_x L)) (Fin (growthChartY L) + Fin 220),
      Stroke,
      MoveTo (Fin (growth_box_x L)) (Fin (growthChartY L) + Fin 220),
      LineTo (Fin (growth_box_x L) + Fin 450) (Fin (growthChartY L) + Fin 220),
      Stroke,
      Text [Str (Number (Fin (of_int (Max (set (counts m))))))],
      Text [Str (Number (Fin (of_int (Min (set (counts m))))))],
      Text [LocaleDate (date (followerHistory m ! 0))],
      Text [LocaleDate (date (followerHistory m ! (?N - 1)))]]
     @ map (\<lambda>i. (if i = 0 then MoveTo else LineTo)
                   (Fin (spec_line_x (growth_box_x L) 450 ?N i))
                   (Fin (spec_line_y (growthChartY L) 220 (Min (set (counts m)))
                           (Max (set (counts m))) (counts m ! i))))
           [0..<?N]
     @ [Stroke]"
    unfolding followerGrowthChart_def Let_def Math_min_counts [OF ne(1)]
      Math_max_counts [OF ne(1)] yRange_counts box pts [unfolded Let_def]
    by (rule refl)
  show ?thesis
    unfolding chart using ne(2) by (simp add: hd_conv_nth last_conv_nth)
qed


text \<open>
  Claim C6: in the document of a bundle with N >= 2 samples, page 1 holds, after the
  header and the summary, the chart heading, the two axes, the four axis labels and then
  the line: a move to the point of sample 0 and a line to the point of each later
  sample, sample \<open>i\<close> with value \<open>v\<close> at \<open>x = boxX + i * (450 / (N - 1))\<close> and
  \<open>y = boxY + 220 - ((v - min) / (max - min, or 1 if max = min)) * 220\<close>, where the box
  starts at the left axis and at the cursor position. With N < 2 page 1 holds the header
  and the summary and nothing of the chart.
\<close>

theorem line_chart_geometry:
  assumes "\<forall>p\<in>set (topPosts m). title p \<noteq> None"
  shows "\<exists>ops. generateReport L m opts = Inr ops
     \<and> (2 \<le> length (followerHistory m) \<longrightarrow>
          pages ops ! 0 =
            header opts @ summary m
            @ [Text [Lit ''Follower Growth''],
               MoveTo (Fin (growth_box_x L)) (Fin (growthChartY L)),
               LineTo (Fin (growth_box_x L)) (Fin (growthChartY L + 220)),
               Stroke,
               MoveTo (Fin (growth_box_x L)) (Fin (growthChartY L + 220)),
               LineTo (Fin (growth_box_x L + 450)) (Fin (growthChartY L + 220)),
               Stroke,
               Text [Str (Number (Fin (of_int (Max (set (counts m))))))],
               Text [Str (Number (Fin (of_int (Min (set (counts m))))))],
               Text [LocaleDate (date (hd (followerHistory m)))],
               Text [LocaleDate (date (last (followerHistory m)))]]
            @ map (\<lambda>i. (if i = 0 then MoveTo else LineTo)
                     (Fin (spec_line_x (growth_box_x L) 450 (length (followerHistory m)) i))
                     (Fin (spec_line_y (growthChartY L) 220 (Min (set (counts m)))
                             (Max (set (counts m))) (counts m ! i))))
                  [0..<length (followerHistory m)]
            @ [Stroke])
     \<and> (length (followerHistory m) < 2 \<longrightarrow> pages ops ! 0 = header opts @ summary m)"
proof -
  from generateReport_pages [OF assms, of L opts]
  obtain ops where ops: "generateReport L m opts = Inr ops"
    and pgs: "pages ops = [page1 L m opts, page2 L m, page3 m,
                           page4_head @ concat (map table_row (topPosts m))]"
    by blast
  have p1: "pages ops ! 0 = page1 L m opts"
    using pgs by simp
  have short: "pages ops ! 0 = header opts @ summary m" if "length (followerHistory m) < 2"
    using that p1 by (simp add: page1_short_history)
  have long: "pages ops ! 0 = header opts @ summary m @ followerGrowthChart L m"
    if "2 \<le> length (followerHistory m)"
    using that p1 by (simp add: page1_def)
  from ops short long show ?thesis
    by (auto simp add: followerGrowthChart_explicit)
qed

theorem line_chart_geometry_witness:
  "\<exists>ops. generateReport example_layout forecast_example no_options = Inr ops
     \<and> MoveTo (Fin (2441 / 25)) (Fin 470) \<in> set (pages ops ! 0)
     \<and> LineTo (Fin (13691 / 25)) (Fin 250) \<in> set (pages ops ! 0)"
proof -
  have t: "\<forall>p\<in>set (topPosts forecast_example). title p \<noteq> None"
    by (simp add: forecast_example_def)
  have n: "2 \<le> length (followerHistory forecast_example)"
    by (simp add: forecast_example_def)
  have x0: "spec_line_x (growth_box_x example_layout) 450 2 0 = 2441 / 25"
    by (simp add: spec_line_x_def growth_box_x_def example_layout_def)
  have x1: "spec_line_x (growth_box_x example_layout) 450 2 (Suc 0) = 13691 / 25"
    by (simp add: spec_line_x_def growth_box_x_def example_layout_def)
  have y0: "spec_line_y (growthChartY example_layout) 220 100 200 100 = 470"
    by (simp add: spec_line_y_def example_layout_def)
  have y1: "spec_line_y (growthChartY example_layout) 220 100 200 200 = 250"
    by (simp add: spec_line_y_def example_layout_def)
  have c: "counts forecast_example = [100, 200]"
    by (simp add: counts_def forecast_example_def)
  have l: "length (followerHistory forecast_example) = 2"
    by (simp add: forecast_example_def)
  have u: "[0..<2] = [0, Suc 0]"
    by (simp add: upt_rec)
  from line_chart_geometry [OF t, of example_layout no_options] n
  obtain ops where "generateReport example_layout forecast_example no_options = Inr ops"
    and "MoveTo (Fin (2441 / 25)) (Fin 470) \<in> set (pages ops ! 0)"
    and "LineTo (Fin (13691 / 25)) (Fin 250) \<in> set (pages ops ! 0)"
    unfolding c l u by (auto simp add: x0 x1 y0 y1)
  then show ?thesis by blast
qed

lemma or_zero_zero_filled:
  "or_zero (likes (zero_filled p)) = or_zero (likes p)"
  "or_zero (comments (zero_filled p)) = or_zero (comments p)"
  by (simp_all add: zero_filled_def or_zero_def)

lemma zero_filled_likes:
  "ToNumber (js_or (num_field (likes (zero_filled p))) (Number (Fin 0)))
   = ToNumber (js_or (num_field (likes p)) (Number (Fin 0)))"
  by (simp add: or_zero_field or_zero_zero_filled)

lemma zero_filled_comments:
  "ToNumber (js_or (num_field (comments (zero_filled p))) (Number (Fin 0)))
   = ToNumber (js_or (num_field (comments p)) (Number (Fin 0)))"
  by (simp add: or_zero_field or_zero_zero_filled)

lemma totals_with_zeros:
  "totalLikes (with_zeros m) = totalLikes m" "totalComments (with_zeros m) = totalComments m"
  by (simp_all add: totalLikes_sum totalComments_sum with_zeros_def or_zero_zero_filled
        comp_def)

lemma ends_with_zeros:
  "endCount (with_zeros m) = endCount m" "length (topPosts (with_zeros m)) = length (topPosts m)"
  by (simp_all add: endCount_def counts_def with_zeros_def)

lemma maxMetric_with_zeros: "maxMetric (with_zeros m) = maxMetric m"
  by (simp add: maxMetric_def with_zeros_def comp_def zero_filled_likes zero_filled_comments)

lemma enumerate_map: "enumerate n (map f xs) = map (\<lambda>(i, x). (i, f x)) (enumerate n xs)"
  by (simp add: enumerate_eq_zip zip_map2)

lemma barChart_with_zeros: "topPostsBarChart L (with_zeros m) = topPostsBarChart L m"
  unfolding topPostsBarChart_def maxMetric_with_zeros
  by (simp add: with_zeros_def enumerate_map comp_def case_prod_unfold zero_filled_likes
        zero_filled_comments Let_def)

text \<open>
  Claim C10: a missing like or comment count is read as 0 by the totals, the averages,
  the engagement rate, the comment-to-like ratio and the bar chart (they are what they
  would be with the 0 written in the bundle), and never makes \<open>generateReport\<close> fail:
  it fails, with a \<open>TypeError\<close>, exactly when some post has no title, and returns a
  document otherwise.
\<close>

theorem missing_fields_as_zero:
  "totalLikes m = Fin (of_int (\<Sum>p\<leftarrow>topPosts m. or_zero (likes p)))
   \<and> totalComments m = Fin (of_int (\<Sum>p\<leftarrow>topPosts m. or_zero (comments p)))
   \<and> totalLikes m = totalLikes (with_zeros m)
   \<and> totalComments m = totalComments (with_zeros m)
   \<and> avgLikes m = avgLikes (with_zeros m)
   \<and> avgComments m = avgComments (with_zeros m)
   \<and> engagementRate m = engagementRate (with_zeros m)
   \<and> commentLikeRatio m = commentLikeRatio (with_zeros m)
   \<and> topPostsBarChart L m = topPostsBarChart L (with_zeros m)
   \<and> (generateReport L m opts = Inl TypeError) = (\<exists>p\<in>set (topPosts m). title p = None)
   \<and> (\<exists>ops. generateReport L m opts = Inr ops) = (\<forall>p\<in>set (topPosts m). title p \<noteq> None)"
proof -
  have stats: "avgLikes m = avgLikes (with_zeros m)" "avgComments m = avgComments (with_zeros m)"
    "engagementRate m = engagementRate (with_zeros m)"
    "commentLikeRatio m = commentLikeRatio (with_zeros m)"
    by (simp_all add: avgLikes_def avgComments_def engagementRate_def commentLikeRatio_def
          totals_with_zeros ends_with_zeros)
  have fails: "(generateReport L m opts = Inl TypeError) = (\<exists>p\<in>set (topPosts m). title p = None)"
  proof
    assume f: "generateReport L m opts = Inl TypeError"
    show "\<exists>p\<in>set (topPosts m). title p = None"
    proof (rule ccontr)
      assume "\<not> (\<exists>p\<in>set (topPosts m). title p = None)"
      then have "\<forall>p\<in>set (topPosts m). title p \<noteq> None" by simp
      from generateReport_titled [OF this, of L opts] f show False by simp
    qed
  next
    assume "\<exists>p\<in>set (topPosts m). title p = None"
    then show "generateReport L m opts = Inl TypeError" by (rule generateReport_untitled)
  qed
  have succeeds: "(\<exists>ops. generateReport L m opts = Inr ops) = (\<forall>p\<in>set (topPosts m). title p \<noteq> None)"
  proof
    assume "\<exists>ops. generateReport L m opts = Inr ops"
    with fails show "\<forall>p\<in>set (topPosts m). title p \<noteq> None" by auto
  next
    assume "\<forall>p\<in>set (topPosts m). title p \<noteq> None"
    from generateReport_titled [OF this, of L opts]
    show "\<exists>ops. generateReport L m opts = Inr ops" by simp
  qed
  from stats fails succeeds show ?thesis
    by (simp add: totals_with_zeros barChart_with_zeros totalLikes_sum [symmetric]
          totalComments_sum [symmetric])
qed

theorem missing_fields_as_zero_witness:
  "totalLikes partial_example = Fin 0 \<and> totalComments partial_example = Fin 2
   \<and> (\<exists>ops. generateReport example_layout partial_example no_options = Inr ops)
   \<and> generateReport example_layout untitled_example no_options = Inl TypeError"
  using missing_fields_as_zero [of partial_example example_layout no_options]
    missing_fields_as_zero [of untitled_example example_layout no_options]
  by (simp add: partial_example_def untitled_example_def or_zero_def)

end
